theory Spec2Isabelle
  imports Main
begin

section \<open>Gnoke Manifest: storage engine, transactions and booking\<close>

text \<open>
  The development embeds the JavaScript modules \<^verbatim>\<open>DB\<close> (db-core.js), \<^verbatim>\<open>DBConfig\<close>
  (db-config.js), \<^verbatim>\<open>DBHistory\<close> (db-history.js) and \<^verbatim>\<open>DBBooking\<close> (db-booking.js).
  Module variables (\<^verbatim>\<open>_db\<close>, \<^verbatim>\<open>_SQL\<close>, \<^verbatim>\<open>_dirty\<close>) and the browser's IndexedDB store
  become one explicit state record; every \<^verbatim>\<open>throw\<close> and every rejected promise is the
  \<open>Inl\<close> branch of a sum. An \<^verbatim>\<open>async\<close> function is modelled as run to completion:
  the calls of one operation are not interleaved with those of another.
\<close>

subsection \<open>JavaScript values\<close>

text \<open>An error object carries its constructor and its message.\<close>

datatype error = Error string | TypeError string | DOMException string

fun message :: "error \<Rightarrow> string" where
  "message (Error m) = m"
| "message (TypeError m) = m"
| "message (DOMException m) = m"

text \<open>\<^verbatim>\<open>String.prototype.includes\<close>: some position of the string starts with the pattern.\<close>

fun str_includes :: "string \<Rightarrow> string \<Rightarrow> bool" where
  "str_includes [] sub = (sub = [])"
| "str_includes (c # cs) sub = (take (length sub) (c # cs) = sub \<or> str_includes cs sub)"

text \<open>
  A string is the sequence of its code units, each below 256. Of the white space that
  \<^verbatim>\<open>String.prototype.trim\<close> strips, these are U+0009 to U+000D, U+0020 and U+00A0.
\<close>

definition is_space :: "char \<Rightarrow> bool" where
  "is_space ch =
     (ch \<in> set [CHR 0x20, CHR 0x09, CHR 0x0A, CHR 0x0B, CHR 0x0C, CHR 0x0D, CHR 0xA0])"

definition trim :: "string \<Rightarrow> string" where
  "trim s = rev (dropWhile is_space (rev (dropWhile is_space s)))"

text \<open>The order of SQLite's default collation: code unit by code unit, a prefix first.\<close>

fun str_less :: "string \<Rightarrow> string \<Rightarrow> bool" where
  "str_less [] [] = False"
| "str_less [] (y # ys) = True"
| "str_less (x # xs) [] = False"
| "str_less (x # xs) (y # ys) =
     ((of_char x :: nat) < of_char y \<or> (x = y \<and> str_less xs ys))"

text \<open>\<^verbatim>\<open>String(n)\<close> for a non-negative integer and for an integer.\<close>

definition digit_char :: "nat \<Rightarrow> char" where
  "digit_char n = ''0123456789'' ! (n mod 10)"

fun show_nat :: "nat \<Rightarrow> string" where
  "show_nat n = (if n < 10 then [digit_char n] else show_nat (n div 10) @ [digit_char n])"

declare show_nat.simps [simp del]

definition show_int :: "int \<Rightarrow> string" where
  "show_int i = (if i < 0 then CHR ''-'' # show_nat (nat (- i)) else show_nat (nat i))"

text \<open>\<^verbatim>\<open>padStart(n, '0')\<close>, \<^verbatim>\<open>substring(a, b)\<close> with \<open>a \<le> b\<close>, and \<^verbatim>\<open>toUpperCase\<close> on ASCII.\<close>

definition padStart :: "nat \<Rightarrow> char \<Rightarrow> string \<Rightarrow> string" where
  "padStart n ch s = replicate (n - length s) ch @ s"

definition substring :: "nat \<Rightarrow> nat \<Rightarrow> string \<Rightarrow> string" where
  "substring a b s = take (b - a) (drop a s)"

definition upper_char :: "char \<Rightarrow> char" where
  "upper_char ch =
     (case map_of (zip ''abcdefghijklmnopqrstuvwxyz'' ''ABCDEFGHIJKLMNOPQRSTUVWXYZ'') ch of
        Some u \<Rightarrow> u
      | None \<Rightarrow> ch)"

definition toUpperCase :: "string \<Rightarrow> string" where
  "toUpperCase s = map upper_char s"

subsection \<open>The database image\<close>

text \<open>
  The rows of the tables the modelled statements read and write. Identifiers are the
  integer primary keys of the tables; fares are nullable.
\<close>

record place =
  pl_id :: nat
  pl_name :: string

record vehicle =
  v_id :: nat
  v_type :: string
  v_capacity :: int

record route =
  r_id :: nat
  r_departure_id :: nat
  r_destination_id :: nat
  r_vehicle_id :: nat
  r_price_ac :: "int option"
  r_price_no_ac :: "int option"

record driver =
  d_id :: nat
  d_name :: string
  d_phone :: string
  d_vehicle_no :: string

record trip =
  t_id :: nat
  t_booking_code :: string
  t_route_id :: nat
  t_driver_id :: nat
  t_vehicle_no :: string
  t_has_ac :: bool
  t_booked_at :: string

record passenger =
  p_id :: nat
  p_trip_id :: nat
  p_name :: string
  p_phone :: string
  p_gender :: string

record tables =
  places :: "place list"
  vehicles :: "vehicle list"
  routes :: "route list"
  drivers :: "driver list"
  trips :: "trip list"
  passengers :: "passenger list"

subsection \<open>The relational engine (sql.js database object)\<close>

text \<open>
  The engine is the sql.js library (SQLite), which the repository calls and does not
  contain; its statements are modelled by their meaning in SQLite. A connection holds the live image, the image as it was when the open transaction began
  (\<open>None\<close> when no transaction is open), the foreign-key setting of the connection, and
  the two counters read by \<^verbatim>\<open>getRowsModified()\<close> and \<^verbatim>\<open>last_insert_rowid()\<close>.
\<close>

record conn =
  image :: tables
  saved :: "tables option"
  foreign_keys :: bool
  rows_modified :: nat
  last_insert_rowid :: nat

text \<open>
  \<^verbatim>\<open>BEGIN\<close>, \<^verbatim>\<open>COMMIT\<close> and \<^verbatim>\<open>ROLLBACK\<close> as SQLite defines them: transactions do not nest,
  and committing or rolling back with no transaction open is an error.
\<close>

definition sql_begin :: "conn \<Rightarrow> error + conn" where
  "sql_begin c =
     (case saved c of
        Some t \<Rightarrow> Inl (Error ''cannot start a transaction within a transaction'')
      | None \<Rightarrow> Inr (c\<lparr>saved := Some (image c)\<rparr>))"

definition sql_commit :: "conn \<Rightarrow> error + conn" where
  "sql_commit c =
     (case saved c of
        None \<Rightarrow> Inl (Error ''cannot commit - no transaction is active'')
      | Some t \<Rightarrow> Inr (c\<lparr>saved := None\<rparr>))"

definition sql_rollback :: "conn \<Rightarrow> error + conn" where
  "sql_rollback c =
     (case saved c of
        None \<Rightarrow> Inl (Error ''cannot rollback - no transaction is active'')
      | Some t \<Rightarrow> Inr (c\<lparr>image := t, saved := None\<rparr>))"

text \<open>\<^verbatim>\<open>PRAGMA foreign_keys = ON\<close>: SQLite ignores it while a transaction is open.\<close>

definition pragma_foreign_keys_on :: "conn \<Rightarrow> conn" where
  "pragma_foreign_keys_on c = (if saved c = None then c\<lparr>foreign_keys := True\<rparr> else c)"

text \<open>
  A database file is represented by the tables it encodes. \<^verbatim>\<open>new SQL.Database(bytes)\<close>
  opens a fresh connection on the file, with the settings of a new connection: foreign
  keys off, both counters zero.
\<close>

datatype bytes = DbFile tables

fun new_Database :: "bytes \<Rightarrow> conn" where
  "new_Database (DbFile t) =
     \<lparr>image = t, saved = None, foreign_keys = False, rows_modified = 0, last_insert_rowid = 0\<rparr>"

text \<open>
  \<^verbatim>\<open>_db.export()\<close> of sql.js closes the connection, reads the database file and opens it
  again: it returns the file of the live image, and the database object is afterwards a
  new connection on that file, with foreign keys off and both counters zero. The modules
  export only outside their transactions (the scoped \<^verbatim>\<open>run\<close> of a transaction does not
  persist), so the file is taken to hold the live image.
\<close>

definition reopen :: "conn \<Rightarrow> conn" where
  "reopen c = new_Database (DbFile (image c))"

definition db_export :: "conn \<Rightarrow> bytes \<times> conn" where
  "db_export c = (DbFile (image c), reopen c)"

text \<open>A new row gets the rowid after the largest one in its table.\<close>

definition next_rowid :: "nat list \<Rightarrow> nat" where
  "next_rowid ids = Suc (fold max ids 0)"

text \<open>Lookups by primary key, and the join conditions of the queries.\<close>

definition find_trip :: "tables \<Rightarrow> nat \<Rightarrow> trip option" where
  "find_trip tb i = find (\<lambda>t. t_id t = i) (trips tb)"

definition find_route :: "tables \<Rightarrow> nat \<Rightarrow> route option" where
  "find_route tb i = find (\<lambda>r. r_id r = i) (routes tb)"

definition find_vehicle :: "tables \<Rightarrow> nat \<Rightarrow> vehicle option" where
  "find_vehicle tb i = find (\<lambda>v. v_id v = i) (vehicles tb)"

definition find_place :: "tables \<Rightarrow> nat \<Rightarrow> place option" where
  "find_place tb i = find (\<lambda>p. pl_id p = i) (places tb)"

definition place_exists :: "tables \<Rightarrow> nat \<Rightarrow> bool" where
  "place_exists tb i = (\<exists>p \<in> set (places tb). pl_id p = i)"

definition driver_exists :: "tables \<Rightarrow> nat \<Rightarrow> bool" where
  "driver_exists tb i = (\<exists>d \<in> set (drivers tb). d_id d = i)"

definition passenger_count :: "tables \<Rightarrow> nat \<Rightarrow> nat" where
  "passenger_count tb tid = length (filter (\<lambda>p. p_trip_id p = tid) (passengers tb))"

text \<open>The capacity of the vehicle of the route of a trip, when the three rows exist.\<close>

definition trip_capacity :: "tables \<Rightarrow> nat \<Rightarrow> int option" where
  "trip_capacity tb tid =
     (case find_trip tb tid of
        None \<Rightarrow> None
      | Some t \<Rightarrow>
          (case find_route tb (t_route_id t) of
             None \<Rightarrow> None
           | Some r \<Rightarrow>
               (case find_vehicle tb (r_vehicle_id r) of
                  None \<Rightarrow> None
                | Some v \<Rightarrow> Some (v_capacity v))))"

text \<open>
  Modelled from the spec: the schema of the bundled seed database (data/manifest.db) is
  not among the sources. The seat-capacity trigger on \<^verbatim>\<open>passengers\<close> is "evaluated as part
  of the same atomic statement that inserts a passenger"; "if the insert would push the
  trip's passenger count above the vehicle capacity, the operation fails atomically" and
  "no row is inserted". Its message is the one \<^verbatim>\<open>bookPassenger\<close> looks for.
\<close>

definition trigger_message :: string where
  "trigger_message = ''Vehicle is fully booked''"

definition capacity_trigger :: "tables \<Rightarrow> nat \<Rightarrow> error option" where
  "capacity_trigger tb tid =
     (case trip_capacity tb tid of
        None \<Rightarrow> None
      | Some cap \<Rightarrow>
          if cap < int (passenger_count tb tid) + 1 then Some (Error trigger_message)
          else None)"

text \<open>
  Modelled from the spec: the declared constraints of the seed schema. A driver is
  "identified by a unique phone number", a trip has "a unique human-facing booking code",
  a passenger "belongs to exactly one trip", and places, vehicles, routes and drivers are
  referenced "with referential integrity". Foreign keys are checked only while the
  connection's setting is on, and a violated constraint leaves the image as it was.
\<close>

definition unique_failed :: "string \<Rightarrow> error" where
  "unique_failed col = Error (''UNIQUE constraint failed: '' @ col)"

definition fk_failed :: error where
  "fk_failed = Error ''FOREIGN KEY constraint failed''"

text \<open>The mutating statements the modules issue, with their bound parameters.\<close>

datatype stmt =
    InsertDriver string string string
  | UpdateDriver string string nat
  | InsertTrip string nat nat string bool
  | InsertPassenger nat string string string
  | DeletePassenger nat
  | DeletePassengersByTrip nat
  | DeleteTripById nat
  | InsertRoute nat nat nat "int option" "int option"
  | UpdateRouteFares "int option" "int option" nat

definition inserted :: "conn \<Rightarrow> tables \<Rightarrow> nat \<Rightarrow> conn" where
  "inserted c tb i = c\<lparr>image := tb, rows_modified := 1, last_insert_rowid := i\<rparr>"

definition modified :: "conn \<Rightarrow> tables \<Rightarrow> nat \<Rightarrow> conn" where
  "modified c tb n = c\<lparr>image := tb, rows_modified := n\<rparr>"

text \<open>
  \<^verbatim>\<open>_db.run(sql, params)\<close> for one statement; the first argument is the engine's local
  time, used by \<^verbatim>\<open>datetime('now','localtime')\<close>.
\<close>

fun exec_stmt :: "string \<Rightarrow> stmt \<Rightarrow> conn \<Rightarrow> error + conn" where
  "exec_stmt now (InsertDriver name phone vno) c =
     (let tb = image c in
      if \<exists>d \<in> set (drivers tb). d_phone d = phone then Inl (unique_failed ''drivers.phone'')
      else
        let i = next_rowid (map d_id (drivers tb)) in
        Inr (inserted c
          (tb\<lparr>drivers := drivers tb @
             [\<lparr>d_id = i, d_name = name, d_phone = phone, d_vehicle_no = vno\<rparr>]\<rparr>) i))"
| "exec_stmt now (UpdateDriver name vno i) c =
     (let tb = image c in
      Inr (modified c
        (tb\<lparr>drivers :=
           map (\<lambda>d. if d_id d = i then d\<lparr>d_name := name, d_vehicle_no := vno\<rparr> else d)
             (drivers tb)\<rparr>)
        (length (filter (\<lambda>d. d_id d = i) (drivers tb)))))"
| "exec_stmt now (InsertTrip code rid did vno ac) c =
     (let tb = image c in
      if \<exists>t \<in> set (trips tb). t_booking_code t = code
      then Inl (unique_failed ''trips.booking_code'')
      else if foreign_keys c \<and> (find_route tb rid = None \<or> \<not> driver_exists tb did)
      then Inl fk_failed
      else
        let i = next_rowid (map t_id (trips tb)) in
        Inr (inserted c
          (tb\<lparr>trips := trips tb @
             [\<lparr>t_id = i, t_booking_code = code, t_route_id = rid, t_driver_id = did,
               t_vehicle_no = vno, t_has_ac = ac, t_booked_at = now\<rparr>]\<rparr>) i))"
| "exec_stmt now (InsertPassenger tid name phone gender) c =
     (let tb = image c in
      case capacity_trigger tb tid of
        Some e \<Rightarrow> Inl e
      | None \<Rightarrow>
          if foreign_keys c \<and> find_trip tb tid = None then Inl fk_failed
          else
            let i = next_rowid (map p_id (passengers tb)) in
            Inr (inserted c
              (tb\<lparr>passengers := passengers tb @
                 [\<lparr>p_id = i, p_trip_id = tid, p_name = name, p_phone = phone,
                   p_gender = gender\<rparr>]\<rparr>) i))"
| "exec_stmt now (DeletePassenger i) c =
     (let tb = image c in
      Inr (modified c
        (tb\<lparr>passengers := filter (\<lambda>p. p_id p \<noteq> i) (passengers tb)\<rparr>)
        (length (filter (\<lambda>p. p_id p = i) (passengers tb)))))"
| "exec_stmt now (DeletePassengersByTrip tid) c =
     (let tb = image c in
      Inr (modified c
        (tb\<lparr>passengers := filter (\<lambda>p. p_trip_id p \<noteq> tid) (passengers tb)\<rparr>)
        (passenger_count tb tid)))"
| "exec_stmt now (DeleteTripById tid) c =
     (let tb = image c in
      if foreign_keys c \<and> find_trip tb tid \<noteq> None \<and> 0 < passenger_count tb tid
      then Inl fk_failed
      else
        Inr (modified c
          (tb\<lparr>trips := filter (\<lambda>t. t_id t \<noteq> tid) (trips tb)\<rparr>)
          (length (filter (\<lambda>t. t_id t = tid) (trips tb)))))"
| "exec_stmt now (InsertRoute dep dest vid pac pno) c =
     (let tb = image c in
      if foreign_keys c \<and>
         (\<not> place_exists tb dep \<or> \<not> place_exists tb dest \<or> find_vehicle tb vid = None)
      then Inl fk_failed
      else
        let i = next_rowid (map r_id (routes tb)) in
        Inr (inserted c
          (tb\<lparr>routes := routes tb @
             [\<lparr>r_id = i, r_departure_id = dep, r_destination_id = dest, r_vehicle_id = vid,
               r_price_ac = pac, r_price_no_ac = pno\<rparr>]\<rparr>) i))"
| "exec_stmt now (UpdateRouteFares pac pno i) c =
     (let tb = image c in
      Inr (modified c
        (tb\<lparr>routes :=
           map (\<lambda>r. if r_id r = i then r\<lparr>r_price_ac := pac, r_price_no_ac := pno\<rparr> else r)
             (routes tb)\<rparr>)
        (length (filter (\<lambda>r. r_id r = i) (routes tb)))))"

subsection \<open>The browser: IndexedDB, the bundled seed file, the clock\<close>

text \<open>
  IndexedDB holds at most one blob under the fixed key. A request may fail: the outcomes
  of the coming \<^verbatim>\<open>put\<close> requests are scripted (\<open>None\<close> succeeds, \<open>Some e\<close> rejects
  with \<open>e\<close>, and an exhausted script succeeds). Every request and every fetch is logged.
\<close>

datatype io_event = IdbGet | IdbPut bytes | IdbPutFailed | Fetch

record env =
  idb_content :: "bytes option"
  put_script :: "error option list"
  get_error :: "error option"
  sqljs_error :: "error option"
  seed_response :: "error + nat \<times> bytes"
  io_log :: "io_event list"
  clock :: string

subsection \<open>db-core.js\<close>

record state =
  SQL :: bool
  db :: "conn option"
  dirty :: bool
  world :: env

text \<open>The live image, when there is a database instance.\<close>

definition state_tables :: "state \<Rightarrow> tables option" where
  "state_tables s = map_option image (db s)"

definition loadFromIDB :: "state \<Rightarrow> (error + bytes option) \<times> state" where
  "loadFromIDB s =
     (let w = world s; s' = s\<lparr>world := w\<lparr>io_log := io_log w @ [IdbGet]\<rparr>\<rparr> in
      case get_error w of
        Some e \<Rightarrow> (Inl e, s')
      | None \<Rightarrow> (Inr (idb_content w), s'))"

definition saveToIDB :: "bytes \<Rightarrow> state \<Rightarrow> (error + unit) \<times> state" where
  "saveToIDB b s =
     (let w = world s in
      case put_script w of
        Some e # rest \<Rightarrow>
          (Inl e, s\<lparr>world := w\<lparr>put_script := rest, io_log := io_log w @ [IdbPutFailed]\<rparr>\<rparr>)
      | outcomes \<Rightarrow>
          (Inr (), s\<lparr>world := w\<lparr>idb_content := Some b, put_script := tl outcomes,
                                 io_log := io_log w @ [IdbPut b]\<rparr>\<rparr>))"

definition not_initialised :: error where
  "not_initialised = Error ''[DB] Not initialised. Call DB.init() first.''"

definition not_initialised_short :: error where
  "not_initialised_short = Error ''[DB] Not initialised.''"

definition response_ok :: "nat \<Rightarrow> bool" where
  "response_ok status = (200 \<le> status \<and> status \<le> 299)"

definition init :: "state \<Rightarrow> (error + conn) \<times> state" where
  "init s =
     (case db s of
        Some c \<Rightarrow> (Inr c, s)
      | None \<Rightarrow>
          (case sqljs_error (world s) of
             Some e \<Rightarrow> (Inl e, s)
           | None \<Rightarrow>
               (case loadFromIDB (s\<lparr>SQL := True\<rparr>) of
                  (Inl e, s1) \<Rightarrow> (Inl e, s1)
                | (Inr (Some b), s1) \<Rightarrow>
                    (let c = pragma_foreign_keys_on (new_Database b)
                     in (Inr c, s1\<lparr>db := Some c\<rparr>))
                | (Inr None, s1) \<Rightarrow>
                    (let w = world s1; s2 = s1\<lparr>world := w\<lparr>io_log := io_log w @ [Fetch]\<rparr>\<rparr> in
                     case seed_response w of
                       Inl e \<Rightarrow> (Inl e, s2)
                     | Inr (status, buf) \<Rightarrow>
                         if \<not> response_ok status
                         then (Inl (Error (''Failed to fetch seed DB: '' @ show_nat status)), s2)
                         else
                           (case db_export (new_Database buf) of
                              (b, c) \<Rightarrow>
                                (case saveToIDB b (s2\<lparr>db := Some c\<rparr>) of
                                   (Inl e, s3) \<Rightarrow> (Inl e, s3)
                                 | (Inr u, s3) \<Rightarrow>
                                     (let c' = pragma_foreign_keys_on c
                                      in (Inr c', s3\<lparr>db := Some c'\<rparr>))))))))"

text \<open>
  \<^verbatim>\<open>query(sql, params)\<close>: a \<^verbatim>\<open>SELECT\<close> is given by the function from the image to its
  rows. It reads the live image and changes nothing.
\<close>

definition query :: "(tables \<Rightarrow> 'r) \<Rightarrow> state \<Rightarrow> error + 'r" where
  "query sel s =
     (case db s of
        None \<Rightarrow> Inl not_initialised
      | Some c \<Rightarrow> Inr (sel (image c)))"

definition persist :: "state \<Rightarrow> (error + unit) \<times> state" where
  "persist s =
     (case db s of
        None \<Rightarrow> (Inr (), s)
      | Some c \<Rightarrow>
          if \<not> dirty s then (Inr (), s)
          else
            (case db_export c of
               (b, c') \<Rightarrow>
                 (case saveToIDB b (s\<lparr>db := Some c'\<rparr>) of
                    (Inl e, s1) \<Rightarrow> (Inl e, s1)
                  | (Inr u, s1) \<Rightarrow> (Inr (), s1\<lparr>dirty := False\<rparr>))))"

record run_result =
  changes :: nat
  lastInsertRowid :: nat

text \<open>
  \<^verbatim>\<open>run\<close> reads \<^verbatim>\<open>getRowsModified()\<close> and \<^verbatim>\<open>last_insert_rowid()\<close> after \<^verbatim>\<open>persist()\<close>
  has returned, from the connection as the export left it.
\<close>

definition run_info :: "state \<Rightarrow> run_result" where
  "run_info s =
     (case db s of
        Some c \<Rightarrow> \<lparr>changes = rows_modified c, lastInsertRowid = last_insert_rowid c\<rparr>
      | None \<Rightarrow> \<lparr>changes = 0, lastInsertRowid = 0\<rparr>)"

definition run :: "stmt \<Rightarrow> state \<Rightarrow> (error + run_result) \<times> state" where
  "run st s =
     (case db s of
        None \<Rightarrow> (Inl not_initialised, s)
      | Some c \<Rightarrow>
          (case exec_stmt (clock (world s)) st c of
             Inl e \<Rightarrow> (Inl e, s)
           | Inr c' \<Rightarrow>
               (case persist (s\<lparr>db := Some c', dirty := True\<rparr>) of
                  (Inl e, s1) \<Rightarrow> (Inl e, s1)
                | (Inr u, s1) \<Rightarrow> (Inr (run_info s1), s1))))"

text \<open>
  A transaction closure receives \<^verbatim>\<open>{ query, run: _runInTransaction }\<close>. It is modelled as
  the sequence of its steps: a call of the scoped \<^verbatim>\<open>run\<close>, which does not persist, or a
  \<^verbatim>\<open>throw\<close> of the closure's own. An error of a statement leaves the closure as an
  exception, like a \<^verbatim>\<open>throw\<close>.
\<close>

datatype step = Run stmt | Throw error

definition runInTransaction :: "string \<Rightarrow> stmt \<Rightarrow> conn \<Rightarrow> error + conn" where
  "runInTransaction now st c = exec_stmt now st c"

fun closure :: "string \<Rightarrow> step list \<Rightarrow> conn \<Rightarrow> error option \<times> conn" where
  "closure now [] c = (None, c)"
| "closure now (Throw e # rest) c = (Some e, c)"
| "closure now (Run st # rest) c =
     (case runInTransaction now st c of
        Inl e \<Rightarrow> (Some e, c)
      | Inr c' \<Rightarrow> closure now rest c')"

text \<open>The \<^verbatim>\<open>catch\<close> block of \<^verbatim>\<open>transaction\<close>: roll back, then rethrow.\<close>

definition transaction_catch :: "error \<Rightarrow> state \<Rightarrow> (error + unit) \<times> state" where
  "transaction_catch err s =
     (case db s of
        None \<Rightarrow> (Inl (TypeError ''Cannot read properties of null''), s)
      | Some c \<Rightarrow>
          (case sql_rollback c of
             Inl e \<Rightarrow> (Inl e, s)
           | Inr c' \<Rightarrow> (Inl err, s\<lparr>db := Some c'\<rparr>)))"

definition transaction :: "step list \<Rightarrow> state \<Rightarrow> (error + unit) \<times> state" where
  "transaction fn s =
     (case db s of
        None \<Rightarrow> (Inl not_initialised_short, s)
      | Some c \<Rightarrow>
          (case sql_begin c of
             Inl e \<Rightarrow> (Inl e, s)
           | Inr c1 \<Rightarrow>
               (case closure (clock (world s)) fn c1 of
                  (Some err, c2) \<Rightarrow> transaction_catch err (s\<lparr>db := Some c2\<rparr>)
                | (None, c2) \<Rightarrow>
                    (case sql_commit c2 of
                       Inl err \<Rightarrow> transaction_catch err (s\<lparr>db := Some c2\<rparr>)
                     | Inr c3 \<Rightarrow>
                         (case persist (s\<lparr>db := Some c3, dirty := True\<rparr>) of
                            (Inl err, s1) \<Rightarrow> transaction_catch err s1
                          | (Inr u, s1) \<Rightarrow> (Inr (), s1))))))"

text \<open>\<^verbatim>\<open>exportDB\<close> hands the exported file to the browser as a download.\<close>

definition exportDB :: "state \<Rightarrow> (error + bytes) \<times> state" where
  "exportDB s =
     (case db s of
        None \<Rightarrow> (Inl not_initialised_short, s)
      | Some c \<Rightarrow> (case db_export c of (b, c') \<Rightarrow> (Inr b, s\<lparr>db := Some c'\<rparr>)))"

text \<open>
  \<^verbatim>\<open>restoreDB(file)\<close> has no check of \<^verbatim>\<open>_db\<close>, and it sets the foreign keys before
  the export that it writes to IndexedDB. While sql.js is not loaded,
  \<^verbatim>\<open>new _SQL.Database\<close> is a property read on \<^verbatim>\<open>null\<close>; \<^verbatim>\<open>_SQL\<close> is assigned before
  \<^verbatim>\<open>_db\<close>, so there is no connection to close in that case.
\<close>

definition restoreDB :: "bytes \<Rightarrow> state \<Rightarrow> (error + unit) \<times> state" where
  "restoreDB file s =
     (if \<not> SQL s then (Inl (TypeError ''Cannot read properties of null''), s)
      else
        (case db_export (pragma_foreign_keys_on (new_Database file)) of
           (b, c) \<Rightarrow> saveToIDB b (s\<lparr>db := Some c\<rparr>)))"

text \<open>
  \<^verbatim>\<open>generateBookingCode\<close> reads the local date and the random source. The second
  argument is the string \<^verbatim>\<open>Math.random().toString(36)\<close>: \<^verbatim>\<open>0\<close> for zero, and otherwise
  \<^verbatim>\<open>0.\<close> followed by the base-36 digits of the fraction, as many as the number has.
\<close>

record js_date =
  getFullYear :: int
  getMonth :: nat
  getDate :: nat

definition generateBookingCode :: "js_date \<Rightarrow> string \<Rightarrow> string" where
  "generateBookingCode date random36 =
     (let y = show_int (getFullYear date);
          m = padStart 2 (CHR ''0'') (show_nat (getMonth date + 1));
          d = padStart 2 (CHR ''0'') (show_nat (getDate date));
          rand = toUpperCase (substring 2 6 random36)
      in ''TRP-'' @ y @ m @ d @ ''-'' @ rand)"

subsection \<open>db-config.js: routes\<close>

text \<open>
  The rows of \<^verbatim>\<open>WHERE departure_id = ? AND destination_id = ? AND vehicle_id = ?\<close>, the
  \<^verbatim>\<open>SELECT id\<close> over them, and the two fares of a row.
\<close>

definition routes_between :: "tables \<Rightarrow> nat \<Rightarrow> nat \<Rightarrow> nat \<Rightarrow> route list" where
  "routes_between tb dep dest vid =
     filter (\<lambda>r. r_departure_id r = dep \<and> r_destination_id r = dest \<and> r_vehicle_id r = vid)
       (routes tb)"

definition route_ids :: "nat \<Rightarrow> nat \<Rightarrow> nat \<Rightarrow> tables \<Rightarrow> nat list" where
  "route_ids dep dest vid tb = map r_id (routes_between tb dep dest vid)"

definition fares :: "route \<Rightarrow> int option \<times> int option" where
  "fares r = (r_price_ac r, r_price_no_ac r)"

text \<open>
  \<^verbatim>\<open>getRoutes\<close> joins each route with its two places and its vehicle, and orders the
  rows by the name of the departure, the name of the destination and the type of the
  vehicle; rows equal in all three keep the order of the table. Of a row, the columns of
  the route are kept.
\<close>

definition route_sort_key :: "tables \<Rightarrow> route \<Rightarrow> (string \<times> string \<times> string) option" where
  "route_sort_key tb r =
     (case find_place tb (r_departure_id r) of
        None \<Rightarrow> None
      | Some dep \<Rightarrow>
          (case find_place tb (r_destination_id r) of
             None \<Rightarrow> None
           | Some dest \<Rightarrow>
               (case find_vehicle tb (r_vehicle_id r) of
                  None \<Rightarrow> None
                | Some v \<Rightarrow> Some (pl_name dep, pl_name dest, v_type v))))"

fun key_less :: "string \<times> string \<times> string \<Rightarrow> string \<times> string \<times> string \<Rightarrow> bool" where
  "key_less (a, b, c) (a', b', c') =
     (str_less a a' \<or> (a = a' \<and> (str_less b b' \<or> (b = b' \<and> str_less c c'))))"

fun insert_row ::
  "(string \<times> string \<times> string) \<times> route \<Rightarrow> ((string \<times> string \<times> string) \<times> route) list \<Rightarrow>
   ((string \<times> string \<times> string) \<times> route) list" where
  "insert_row x [] = [x]"
| "insert_row x (y # ys) =
     (if key_less (fst x) (fst y) then x # y # ys else y # insert_row x ys)"

fun joined_routes :: "tables \<Rightarrow> route list \<Rightarrow> ((string \<times> string \<times> string) \<times> route) list" where
  "joined_routes tb [] = []"
| "joined_routes tb (r # rs) =
     (case route_sort_key tb r of
        None \<Rightarrow> joined_routes tb rs
      | Some k \<Rightarrow> (k, r) # joined_routes tb rs)"

definition getRoutes :: "state \<Rightarrow> error + route list" where
  "getRoutes s =
     query (\<lambda>tb. map snd (fold insert_row (joined_routes tb (routes tb)) [])) s"

definition upsertRoute ::
  "nat \<Rightarrow> nat \<Rightarrow> nat \<Rightarrow> int option \<Rightarrow> int option \<Rightarrow> state \<Rightarrow> (error + unit) \<times> state" where
  "upsertRoute depId destId vehicleId priceAc priceNoAc s =
     (case query (route_ids depId destId vehicleId) s of
        Inl e \<Rightarrow> (Inl e, s)
      | Inr existing \<Rightarrow>
          (case (case existing of
                   i # rest \<Rightarrow> run (UpdateRouteFares priceAc priceNoAc i) s
                 | [] \<Rightarrow> run (InsertRoute depId destId vehicleId priceAc priceNoAc) s) of
             (Inl e, s1) \<Rightarrow> (Inl e, s1)
           | (Inr r, s1) \<Rightarrow> (Inr (), s1)))"

text \<open>The fares of the routes of one direction and vehicle in the live image.\<close>

definition route_fares :: "state \<Rightarrow> nat \<Rightarrow> nat \<Rightarrow> nat \<Rightarrow> (int option \<times> int option) list" where
  "route_fares s dep dest vid =
     (case db s of
        None \<Rightarrow> []
      | Some c \<Rightarrow> map fares (routes_between (image c) dep dest vid))"

record route_input =
  departureId :: nat
  destinationId :: nat
  vehicleId :: nat
  priceAc :: "int option"
  priceNoAc :: "int option"

definition saveRoute :: "route_input \<Rightarrow> state \<Rightarrow> (error + route list) \<times> state" where
  "saveRoute inp s =
     (if departureId inp = destinationId inp
      then (Inl (Error ''Departure and destination cannot be the same.''), s)
      else
        (case upsertRoute (departureId inp) (destinationId inp) (vehicleId inp)
                (priceAc inp) (priceNoAc inp) s of
           (Inl e, s1) \<Rightarrow> (Inl e, s1)
         | (Inr u, s1) \<Rightarrow>
             (case query (route_ids (destinationId inp) (departureId inp) (vehicleId inp)) s1 of
                Inl e \<Rightarrow> (Inl e, s1)
              | Inr reverse \<Rightarrow>
                  (case (if reverse = []
                         then upsertRoute (destinationId inp) (departureId inp) (vehicleId inp)
                                (priceAc inp) (priceNoAc inp) s1
                         else (Inr (), s1)) of
                     (Inl e, s2) \<Rightarrow> (Inl e, s2)
                   | (Inr u2, s2) \<Rightarrow>
                       (case getRoutes s2 of
                          Inl e \<Rightarrow> (Inl e, s2)
                        | Inr rows \<Rightarrow> (Inr rows, s2))))))"

subsection \<open>db-history.js: deleting a trip\<close>

definition deleteTrip :: "nat \<Rightarrow> state \<Rightarrow> (error + unit) \<times> state" where
  "deleteTrip tripId s =
     transaction [Run (DeletePassengersByTrip tripId), Run (DeleteTripById tripId)] s"

subsection \<open>db-booking.js\<close>

definition getSeatsRemaining :: "nat \<Rightarrow> state \<Rightarrow> error + int option" where
  "getSeatsRemaining tripId s =
     query (\<lambda>tb. case trip_capacity tb tripId of
                   None \<Rightarrow> None
                 | Some cap \<Rightarrow> Some (cap - int (passenger_count tb tripId))) s"

definition getDriverByPhone :: "string \<Rightarrow> state \<Rightarrow> error + driver option" where
  "getDriverByPhone phone s = query (\<lambda>tb. find (\<lambda>d. d_phone d = phone) (drivers tb)) s"

definition upsertDriver :: "string \<Rightarrow> string \<Rightarrow> string \<Rightarrow> state \<Rightarrow> (error + nat) \<times> state" where
  "upsertDriver name phone vehicleNo s =
     (case getDriverByPhone phone s of
        Inl e \<Rightarrow> (Inl e, s)
      | Inr (Some existing) \<Rightarrow>
          (case run (UpdateDriver name vehicleNo (d_id existing)) s of
             (Inl e, s1) \<Rightarrow> (Inl e, s1)
           | (Inr r, s1) \<Rightarrow> (Inr (d_id existing), s1))
      | Inr None \<Rightarrow>
          (case run (InsertDriver name phone vehicleNo) s of
             (Inl e, s1) \<Rightarrow> (Inl e, s1)
           | (Inr r, s1) \<Rightarrow> (Inr (lastInsertRowid r), s1)))"

text \<open>
  The trip query joins the trip with its route, the route's two places and vehicle, and
  the trip's driver: a trip missing one of them is not found.
\<close>

definition trip_joins :: "tables \<Rightarrow> trip \<Rightarrow> bool" where
  "trip_joins tb t =
     (case find_route tb (t_route_id t) of
        None \<Rightarrow> False
      | Some r \<Rightarrow>
          place_exists tb (r_departure_id r) \<and> place_exists tb (r_destination_id r) \<and>
          find_vehicle tb (r_vehicle_id r) \<noteq> None \<and> driver_exists tb (t_driver_id t))"

definition getTripByBookingCode :: "string \<Rightarrow> state \<Rightarrow> error + trip option" where
  "getTripByBookingCode bookingCode s =
     query (\<lambda>tb. find (\<lambda>t. t_booking_code t = bookingCode \<and> trip_joins tb t) (trips tb)) s"

definition createTrip ::
  "string \<Rightarrow> nat \<Rightarrow> nat \<Rightarrow> string \<Rightarrow> bool \<Rightarrow> state \<Rightarrow> (error + nat) \<times> state" where
  "createTrip bookingCode routeId driverId vehicleNo hasAc s =
     (case run (InsertTrip bookingCode routeId driverId vehicleNo hasAc) s of
        (Inl e, s1) \<Rightarrow> (Inl e, s1)
      | (Inr r, s1) \<Rightarrow> (Inr (lastInsertRowid r), s1))"

text \<open>
  The result objects: \<^verbatim>\<open>{success: true, passengerId}\<close>,
  \<^verbatim>\<open>{success: false, reason, message}\<close>, and the
  \<^verbatim>\<open>{success: true, tripId, passengerId, bookingCode, seatsRemaining}\<close> of \<^verbatim>\<open>bookTrip\<close>.
\<close>

datatype outcome =
    PassengerBooked nat
  | NotBooked string string
  | TripBooked nat nat string "int option"

fun success :: "outcome \<Rightarrow> bool" where
  "success (PassengerBooked pid) = True"
| "success (NotBooked reason msg) = False"
| "success (TripBooked tid pid code remaining) = True"

definition full_outcome :: outcome where
  "full_outcome = NotBooked ''full'' ''Vehicle is fully booked. No seats remaining.''"

definition bookPassenger ::
  "nat \<Rightarrow> string \<Rightarrow> string \<Rightarrow> string \<Rightarrow> state \<Rightarrow> (error + outcome) \<times> state" where
  "bookPassenger tripId name phone gender s =
     (case run (InsertPassenger tripId (trim name) (trim phone) gender) s of
        (Inr r, s1) \<Rightarrow> (Inr (PassengerBooked (lastInsertRowid r)), s1)
      | (Inl err, s1) \<Rightarrow>
          if str_includes (message err) ''fully booked'' then (Inr full_outcome, s1)
          else (Inl err, s1))"

record booking_input =
  bookingCode :: string
  routeId :: nat
  vehicleNo :: string
  hasAc :: bool
  driverName :: string
  driverPhone :: string
  passengerName :: string
  passengerPhone :: string
  gender :: string

definition bookTrip :: "booking_input \<Rightarrow> state \<Rightarrow> (error + outcome) \<times> state" where
  "bookTrip inp s =
     (case upsertDriver (driverName inp) (driverPhone inp) (vehicleNo inp) s of
        (Inl e, s1) \<Rightarrow> (Inl e, s1)
      | (Inr driverId, s1) \<Rightarrow>
          (case getTripByBookingCode (bookingCode inp) s1 of
             Inl e \<Rightarrow> (Inl e, s1)
           | Inr trip \<Rightarrow>
               (case (case trip of
                        None \<Rightarrow> createTrip (bookingCode inp) (routeId inp) driverId
                                  (vehicleNo inp) (hasAc inp) s1
                      | Some t \<Rightarrow> (Inr (t_id t), s1)) of
                  (Inl e, s2) \<Rightarrow> (Inl e, s2)
                | (Inr tripId, s2) \<Rightarrow>
                    (case bookPassenger tripId (passengerName inp) (passengerPhone inp)
                            (gender inp) s2 of
                       (Inl e, s3) \<Rightarrow> (Inl e, s3)
                     | (Inr booking, s3) \<Rightarrow>
                         if \<not> success booking then (Inr booking, s3)
                         else
                           (case getSeatsRemaining tripId s3 of
                              Inl e \<Rightarrow> (Inl e, s3)
                            | Inr remaining \<Rightarrow>
                                (Inr (TripBooked tripId
                                        (case booking of PassengerBooked pid \<Rightarrow> pid | _ \<Rightarrow> 0)
                                        (bookingCode inp) remaining), s3))))))"

subsection \<open>Example states\<close>

text \<open>
  A small image: three places, one vehicle with two seats, and the route between the
  first two places in both directions. \<open>fresh_state\<close> is the module before \<^verbatim>\<open>init\<close>, with an empty
  IndexedDB and the image as the bundled seed; \<open>demo_state\<close> is the state \<^verbatim>\<open>init\<close> leaves.
\<close>

definition demo_tables :: tables where
  "demo_tables =
     \<lparr>places = [\<lparr>pl_id = 1, pl_name = ''Lagos''\<rparr>, \<lparr>pl_id = 2, pl_name = ''Abuja''\<rparr>,
                \<lparr>pl_id = 3, pl_name = ''Ibadan''\<rparr>],
      vehicles = [\<lparr>v_id = 1, v_type = ''Sienna'', v_capacity = 2\<rparr>],
      routes = [\<lparr>r_id = 1, r_departure_id = 1, r_destination_id = 2, r_vehicle_id = 1,
                 r_price_ac = Some 5000, r_price_no_ac = Some 4000\<rparr>,
                \<lparr>r_id = 2, r_departure_id = 2, r_destination_id = 1, r_vehicle_id = 1,
                 r_price_ac = Some 5000, r_price_no_ac = Some 4000\<rparr>],
      drivers = [], trips = [], passengers = []\<rparr>"

definition demo_conn :: conn where
  "demo_conn =
     \<lparr>image = demo_tables, saved = None, foreign_keys = True, rows_modified = 0,
      last_insert_rowid = 0\<rparr>"

definition demo_env :: env where
  "demo_env =
     \<lparr>idb_content = None, put_script = [], get_error = None, sqljs_error = None,
      seed_response = Inr (200, DbFile demo_tables), io_log = [],
      clock = ''2025-01-01 08:00:00''\<rparr>"

definition fresh_state :: state where
  "fresh_state = \<lparr>SQL = False, db = None, dirty = False, world = demo_env\<rparr>"

definition demo_state :: state where
  "demo_state =
     \<lparr>SQL = True, db = Some demo_conn, dirty = False,
      world = demo_env\<lparr>idb_content := Some (DbFile demo_tables),
                        io_log := [IdbGet, Fetch, IdbPut (DbFile demo_tables)]\<rparr>\<rparr>"

text \<open>The seed file cannot be fetched (status 404).\<close>

definition offline_state :: state where
  "offline_state =
     fresh_state\<lparr>world := demo_env\<lparr>seed_response := Inr (404, DbFile demo_tables)\<rparr>\<rparr>"

text \<open>The next write to IndexedDB is rejected.\<close>

definition quota_state :: state where
  "quota_state =
     demo_state\<lparr>world := (world demo_state)
       \<lparr>put_script := [Some (DOMException ''QuotaExceededError'')]\<rparr>\<rparr>"

text \<open>A transaction is open.\<close>

definition open_tx_state :: state where
  "open_tx_state = demo_state\<lparr>db := Some (demo_conn\<lparr>saved := Some demo_tables\<rparr>)\<rparr>"

text \<open>The state after the backup is exported and restored.\<close>

definition restored :: state where
  "restored = snd (restoreDB (DbFile demo_tables) (snd (exportDB demo_state)))"

text \<open>Route inputs: new fares for the existing pair, and a pair that does not exist yet.\<close>

definition new_fares :: route_input where
  "new_fares =
     \<lparr>departureId = 1, destinationId = 2, vehicleId = 1,
      priceAc = Some 7000, priceNoAc = Some 6000\<rparr>"

definition new_pair :: route_input where
  "new_pair =
     \<lparr>departureId = 1, destinationId = 3, vehicleId = 1,
      priceAc = Some 3000, priceNoAc = None\<rparr>"

text \<open>
  The bookings of the example scenario: three passengers on the booking code
  \<^verbatim>\<open>TRP-20250101-AAAA\<close>, on the route with the two-seat vehicle, and the states between
  them, from \<open>demo_state\<close>, where the driver is new.
\<close>

definition booking_for :: "string \<Rightarrow> string \<Rightarrow> booking_input" where
  "booking_for name phone =
     \<lparr>bookingCode = ''TRP-20250101-AAAA'', routeId = 1, vehicleNo = ''LAG-1'', hasAc = True,
      driverName = ''Musa'', driverPhone = ''0801'', passengerName = name,
      passengerPhone = phone, gender = ''F''\<rparr>"

definition ada :: booking_input where
  "ada = booking_for ''Ada'' ''0802''"

definition bola :: booking_input where
  "bola = booking_for ''Bola'' ''0803''"

definition chidi :: booking_input where
  "chidi = booking_for ''Chidi'' ''0804''"

definition one_booked :: state where
  "one_booked = snd (bookTrip ada demo_state)"

text \<open>
  The same bookings where the driver is known: \<^verbatim>\<open>upsertDriver\<close> has stored the driver
  before the first booking.
\<close>

definition driver_known :: state where
  "driver_known = snd (upsertDriver ''Musa'' ''0801'' ''LAG-1'' demo_state)"

definition known_one :: state where
  "known_one = snd (bookTrip ada driver_known)"

definition known_two :: state where
  "known_two = snd (bookTrip bola known_one)"

definition known_three :: state where
  "known_three = snd (bookTrip chidi known_two)"

text \<open>A booking on a route that does not exist.\<close>

definition no_route :: booking_input where
  "no_route = (booking_for ''Ada'' ''0802'')\<lparr>routeId := 9\<rparr>"


definition count_of :: "state \<Rightarrow> nat \<Rightarrow> nat" where
  "count_of s tid = (case db s of None \<Rightarrow> 0 | Some c \<Rightarrow> passenger_count (image c) tid)"

section \<open>Properties\<close>

lemmas demo_defs = demo_tables_def demo_conn_def demo_env_def fresh_state_def demo_state_def
  offline_state_def quota_state_def open_tx_state_def

lemma init_fresh_state: "init fresh_state = (Inr demo_conn, demo_state)"
  by (simp add: demo_defs init_def loadFromIDB_def saveToIDB_def response_ok_def
      db_export_def reopen_def pragma_foreign_keys_on_def Let_def)

subsection \<open>What a call leaves unchanged\<close>

lemma exec_stmt_settings:
  "exec_stmt now st c = Inr c' \<Longrightarrow> saved c' = saved c \<and> foreign_keys c' = foreign_keys c"
  by (cases st) (auto simp: inserted_def modified_def Let_def split: if_splits option.splits)

lemma closure_settings:
  "closure now fn c = (r, c') \<Longrightarrow> saved c' = saved c \<and> foreign_keys c' = foreign_keys c"
proof (induction now fn c rule: closure.induct)
  case (1 now c)
  then show ?case by simp
next
  case (2 now e rest c)
  then show ?case by simp
next
  case (3 now st rest c)
  show ?case
  proof (cases "runInTransaction now st c")
    case (Inl e)
    with 3 show ?thesis by simp
  next
    case (Inr c1)
    with 3 exec_stmt_settings [of now st c c1] show ?thesis
      by (simp add: runInTransaction_def)
  qed
qed

lemma saveToIDB_frame:
  "saveToIDB b s = (r, s') \<Longrightarrow>
   db s' = db s \<and> SQL s' = SQL s \<and> dirty s' = dirty s \<and> clock (world s') = clock (world s)"
  by (auto simp: saveToIDB_def Let_def split: list.splits option.splits)

lemma reopen_image [simp]: "image (reopen c) = image c"
  by (simp add: reopen_def)

text \<open>\<^verbatim>\<open>persist\<close> keeps the image; the connection is the reopened one when it exports.\<close>

lemma persist_dirty:
  assumes "db s = Some c" and "dirty s" and "persist s = (r, s')"
  shows "db s' = Some (reopen c) \<and> SQL s' = SQL s \<and> clock (world s') = clock (world s)"
proof -
  obtain r1 s1 where sv: "saveToIDB (DbFile (image c)) (s\<lparr>db := Some (reopen c)\<rparr>) = (r1, s1)"
    by (cases "saveToIDB (DbFile (image c)) (s\<lparr>db := Some (reopen c)\<rparr>)")
  from saveToIDB_frame [OF sv] have f: "db s1 = Some (reopen c)" "SQL s1 = SQL s"
    "clock (world s1) = clock (world s)" by simp_all
  from assms sv have "s' = s1 \<or> s' = s1\<lparr>dirty := False\<rparr>"
    by (auto simp: persist_def db_export_def split: sum.splits)
  with f show ?thesis by auto
qed

text \<open>
  \<^verbatim>\<open>run\<close> either fails in the engine and changes nothing, or applies the statement and
  exports; then the connection is the reopened one, and the counters it returns, unless
  the write fails, are those of the reopened connection.
\<close>

lemma run_effect:
  assumes "db s = Some c" and "run st s = (res, s')"
  shows "case exec_stmt (clock (world s)) st c of
           Inl e \<Rightarrow> res = Inl e \<and> s' = s
         | Inr c' \<Rightarrow> db s' = Some (reopen c') \<and> SQL s' = SQL s \<and>
             clock (world s') = clock (world s) \<and>
             (res = Inr \<lparr>changes = 0, lastInsertRowid = 0\<rparr> \<or> (\<exists>e. res = Inl e))"
proof (cases "exec_stmt (clock (world s)) st c")
  case (Inl e)
  with assms show ?thesis by (simp add: run_def)
next
  case (Inr c')
  obtain r1 s1 where p: "persist (s\<lparr>db := Some c', dirty := True\<rparr>) = (r1, s1)"
    by (cases "persist (s\<lparr>db := Some c', dirty := True\<rparr>)")
  from persist_dirty [OF _ _ p] have f: "db s1 = Some (reopen c')" "SQL s1 = SQL s"
    "clock (world s1) = clock (world s)" by simp_all
  from assms Inr p have "s' = s1"
    by (auto simp: run_def split: sum.splits)
  moreover from assms Inr p f have
    "res = Inr \<lparr>changes = 0, lastInsertRowid = 0\<rparr> \<or> (\<exists>e. res = Inl e)"
    by (auto simp: run_def run_info_def reopen_def split: sum.splits)
  ultimately show ?thesis using Inr f by simp
qed

lemma run_Inr:
  assumes "db s = Some c" and "run st s = (Inr r, s')"
  shows "\<exists>c'. exec_stmt (clock (world s)) st c = Inr c' \<and> db s' = Some (reopen c') \<and>
           SQL s' = SQL s \<and> clock (world s') = clock (world s) \<and>
           r = \<lparr>changes = 0, lastInsertRowid = 0\<rparr>"
  using run_effect [OF assms] by (auto split: sum.splits)

subsection \<open>Initialisation\<close>

text \<open>
  C10. \<^verbatim>\<open>init\<close> is idempotent: once a database instance is loaded, \<^verbatim>\<open>init\<close> returns that
  instance and the whole state is as before: the image, the dirty flag, the content of
  IndexedDB and the log of requests and fetches (so nothing was read, fetched or written).
\<close>

theorem init_idempotent: "db s = Some c \<Longrightarrow> init s = (Inr c, s)"
  by (simp add: init_def)

theorem init_idempotent_witness:
  "db demo_state = Some demo_conn \<and> init demo_state = (Inr demo_conn, demo_state)"
  using init_idempotent [of demo_state demo_conn] by (simp add: demo_state_def)

text \<open>
  The guarded calls fail at once while \<^verbatim>\<open>_db\<close> is \<^verbatim>\<open>null\<close>, and change nothing.
\<close>

lemma guarded_calls_before_init:
  assumes "db s = None"
  shows "query sel s = Inl not_initialised"
    and "run st s = (Inl not_initialised, s)"
    and "transaction fn s = (Inl not_initialised_short, s)"
    and "exportDB s = (Inl not_initialised_short, s)"
  using assms by (simp_all add: query_def run_def transaction_def exportDB_def)

lemma show_nat_404: "show_nat 404 = ''404''"
  by code_simp

text \<open>
  C7. \<^verbatim>\<open>restoreDB\<close> has no such guard. After an \<^verbatim>\<open>init\<close> that failed on the seed fetch,
  sql.js is loaded and \<^verbatim>\<open>_db\<close> is still \<^verbatim>\<open>null\<close>; \<^verbatim>\<open>restoreDB\<close> then succeeds, installs
  the file as the database and writes it to IndexedDB. Before sql.js is loaded it fails,
  with a \<^verbatim>\<open>TypeError\<close> and not with the not-initialised error.
\<close>

theorem restoreDB_before_init:
  "init offline_state =
     (Inl (Error ''Failed to fetch seed DB: 404''),
      offline_state\<lparr>SQL := True,
                     world := (world offline_state)\<lparr>io_log := [IdbGet, Fetch]\<rparr>\<rparr>)
   \<and> db (snd (init offline_state)) = None
   \<and> fst (restoreDB (DbFile demo_tables) (snd (init offline_state))) = Inr ()
   \<and> db (snd (restoreDB (DbFile demo_tables) (snd (init offline_state))))
       = Some (new_Database (DbFile demo_tables))
   \<and> idb_content (world (snd (restoreDB (DbFile demo_tables) (snd (init offline_state)))))
       = Some (DbFile demo_tables)
   \<and> restoreDB (DbFile demo_tables) fresh_state
       = (Inl (TypeError ''Cannot read properties of null''), fresh_state)"
  by (simp add: demo_defs init_def loadFromIDB_def restoreDB_def saveToIDB_def
      response_ok_def db_export_def reopen_def pragma_foreign_keys_on_def show_nat_404 Let_def)

subsection \<open>Transactions\<close>

text \<open>
  C6. Transactions do not nest: while a transaction is open, \<^verbatim>\<open>transaction\<close> fails on its
  \<^verbatim>\<open>BEGIN\<close> with the engine's error, the closure is not run, and the state, with the open
  transaction, is as before.
\<close>

theorem transaction_nested_begin:
  "db s = Some c \<Longrightarrow> saved c = Some t \<Longrightarrow>
   transaction fn s =
     (Inl (Error ''cannot start a transaction within a transaction''), s)"
  by (simp add: transaction_def sql_begin_def)

theorem transaction_nested_begin_witness:
  "db open_tx_state = Some (demo_conn\<lparr>saved := Some demo_tables\<rparr>)
   \<and> saved (demo_conn\<lparr>saved := Some demo_tables\<rparr>) = Some demo_tables
   \<and> transaction [Run (DeleteTripById 1)] open_tx_state =
       (Inl (Error ''cannot start a transaction within a transaction''), open_tx_state)"
  using transaction_nested_begin
    [of open_tx_state "demo_conn\<lparr>saved := Some demo_tables\<rparr>" demo_tables
        "[Run (DeleteTripById 1)]"]
  by (simp add: open_tx_state_def demo_state_def)

text \<open>
  C2. When the closure of a transaction raises an error, after any number of its
  statements were applied, \<^verbatim>\<open>transaction\<close> rejects with that same error, and the state is
  the one before the call but for the connection's counters: the image is the image
  before \<^verbatim>\<open>BEGIN\<close>, no transaction is open, and the dirty flag and IndexedDB are untouched.
\<close>

theorem transaction_rollback:
  assumes "db s = Some c"
    and "sql_begin c = Inr c1"
    and "closure (clock (world s)) fn c1 = (Some err, c2)"
  shows "\<exists>c'. transaction fn s = (Inl err, s\<lparr>db := Some c'\<rparr>) \<and> image c' = image c \<and>
              saved c' = None \<and> foreign_keys c' = foreign_keys c"
proof -
  from assms(2) have c1: "c1 = c\<lparr>saved := Some (image c)\<rparr>"
    by (auto simp: sql_begin_def split: option.splits)
  from closure_settings [OF assms(3)] c1
  have c2: "saved c2 = Some (image c)" "foreign_keys c2 = foreign_keys c"
    by simp_all
  let ?c' = "c2\<lparr>image := image c, saved := None\<rparr>"
  have "transaction fn s = (Inl err, s\<lparr>db := Some ?c'\<rparr>)"
    using assms c2 by (simp add: transaction_def transaction_catch_def sql_rollback_def)
  then show ?thesis using c2 by auto
qed

text \<open>
  The witness: a driver is inserted, then the insert of a passenger on a trip that does
  not exist violates the foreign key.
\<close>

theorem transaction_rollback_witness:
  "db demo_state = Some demo_conn \<and>
   sql_begin demo_conn = Inr (demo_conn\<lparr>saved := Some demo_tables\<rparr>) \<and>
   fst (closure (clock (world demo_state))
     [Run (InsertDriver ''Musa'' ''0801'' ''LAG-1''),
      Run (InsertPassenger 9 ''Ada'' ''0802'' ''F'')]
     (demo_conn\<lparr>saved := Some demo_tables\<rparr>)) = Some fk_failed \<and>
   (\<exists>c'. transaction
      [Run (InsertDriver ''Musa'' ''0801'' ''LAG-1''),
       Run (InsertPassenger 9 ''Ada'' ''0802'' ''F'')]
      demo_state = (Inl fk_failed, demo_state\<lparr>db := Some c'\<rparr>) \<and>
      image c' = image demo_conn \<and> saved c' = None \<and>
      foreign_keys c' = foreign_keys demo_conn)"
proof -
  let ?fn = "[Run (InsertDriver ''Musa'' ''0801'' ''LAG-1''),
              Run (InsertPassenger 9 ''Ada'' ''0802'' ''F'')]"
  let ?c1 = "demo_conn\<lparr>saved := Some demo_tables\<rparr>"
  let ?c2 = "inserted ?c1
    (demo_tables\<lparr>drivers :=
       [\<lparr>d_id = 1, d_name = ''Musa'', d_phone = ''0801'', d_vehicle_no = ''LAG-1''\<rparr>]\<rparr>) 1"
  have a: "db demo_state = Some demo_conn" by (simp add: demo_state_def)
  have b: "sql_begin demo_conn = Inr ?c1" by (simp add: sql_begin_def demo_conn_def)
  have c: "closure (clock (world demo_state)) ?fn ?c1 = (Some fk_failed, ?c2)"
    by (simp add: demo_defs runInTransaction_def inserted_def next_rowid_def Let_def
        capacity_trigger_def trip_capacity_def find_trip_def)
  from transaction_rollback [OF a b c] a b c show ?thesis by simp
qed

subsection \<open>Persistence failures\<close>

text \<open>
  When the export after a \<^verbatim>\<open>run\<close> is rejected, \<^verbatim>\<open>run\<close> rejects with that error, the
  statement stays applied and the dirty flag stays set.
\<close>

lemma run_store_failure:
  assumes "db s = Some c"
    and "exec_stmt (clock (world s)) st c = Inr c'"
    and "put_script (world s) = Some e # rest"
  shows "fst (run st s) = Inl e"
    and "state_tables (snd (run st s)) = Some (image c')"
    and "dirty (snd (run st s))"
  using assms
  by (simp_all add: run_def persist_def saveToIDB_def db_export_def state_tables_def Let_def)

text \<open>
  C3. In \<^verbatim>\<open>transaction\<close> the export is inside the \<^verbatim>\<open>try\<close> block. When IndexedDB rejects
  the write after the \<^verbatim>\<open>COMMIT\<close>, the \<^verbatim>\<open>catch\<close> block issues \<^verbatim>\<open>ROLLBACK\<close> with no
  transaction open, and the engine's error for that is what the caller gets; the committed
  row stays and the dirty flag stays set. The same failure after \<^verbatim>\<open>run\<close> reaches the
  caller as it is.
\<close>

theorem transaction_store_failure_masked:
  "fst (transaction [Run (InsertDriver ''Musa'' ''0801'' ''LAG-1'')] quota_state)
     = Inl (Error ''cannot rollback - no transaction is active'')
   \<and> dirty (snd (transaction [Run (InsertDriver ''Musa'' ''0801'' ''LAG-1'')] quota_state))
   \<and> map_option drivers
       (state_tables (snd (transaction [Run (InsertDriver ''Musa'' ''0801'' ''LAG-1'')] quota_state)))
       = Some [\<lparr>d_id = 1, d_name = ''Musa'', d_phone = ''0801'', d_vehicle_no = ''LAG-1''\<rparr>]
   \<and> fst (run (InsertDriver ''Musa'' ''0801'' ''LAG-1'') quota_state)
       = Inl (DOMException ''QuotaExceededError'')"
  by (simp add: demo_defs transaction_def sql_begin_def sql_commit_def sql_rollback_def
      transaction_catch_def persist_def saveToIDB_def runInTransaction_def run_def
      inserted_def next_rowid_def db_export_def reopen_def Let_def run_info_def
      state_tables_def)

subsection \<open>Booking codes\<close>

text \<open>
  C9. The token is not padded: when the random number is 0.5, whose base-36 form is
  \<^verbatim>\<open>0.i\<close>, the code of 20 April 2025 has a token of one character.
\<close>

theorem generateBookingCode_short_token:
  "generateBookingCode \<lparr>getFullYear = 2025, getMonth = 3, getDate = 20\<rparr> ''0.i''
     = ''TRP-20250420-I''"
  by code_simp

subsection \<open>Backup and restore\<close>

text \<open>
  C8. \<^verbatim>\<open>restoreDB\<close> sets the foreign keys and then exports, and the export resets them.
  Right after \<^verbatim>\<open>init\<close> foreign keys are enforced: a passenger on a trip that does not
  exist is refused. After \<^verbatim>\<open>exportDB\<close> and \<^verbatim>\<open>restoreDB\<close> of the exported file the image is
  the same, foreign keys are off, and the same insert is accepted.
\<close>

theorem restoreDB_foreign_keys_off:
  "map_option foreign_keys (db demo_state) = Some True
   \<and> fst (run (InsertPassenger 9 ''Ada'' ''0802'' ''F'') demo_state) = Inl fk_failed
   \<and> fst (exportDB demo_state) = Inr (DbFile demo_tables)
   \<and> fst (restoreDB (DbFile demo_tables) (snd (exportDB demo_state))) = Inr ()
   \<and> state_tables restored = Some demo_tables
   \<and> map_option foreign_keys (db restored) = Some False
   \<and> fst (run (InsertPassenger 9 ''Ada'' ''0802'' ''F'') restored)
       = Inr \<lparr>changes = 0, lastInsertRowid = 0\<rparr>
   \<and> map_option passengers
       (state_tables (snd (run (InsertPassenger 9 ''Ada'' ''0802'' ''F'') restored)))
       = Some [\<lparr>p_id = 1, p_trip_id = 9, p_name = ''Ada'', p_phone = ''0802'', p_gender = ''F''\<rparr>]"
  by (simp add: restored_def demo_defs exportDB_def restoreDB_def db_export_def reopen_def
      pragma_foreign_keys_on_def saveToIDB_def run_def persist_def run_info_def inserted_def
      next_rowid_def capacity_trigger_def trip_capacity_def find_trip_def state_tables_def
      fk_failed_def Let_def)

subsection \<open>Routes in both directions\<close>

lemma route_ids_between: "route_ids dep dest vid tb = map r_id (routes_between tb dep dest vid)"
  by (simp add: route_ids_def)

lemma upsertRoute_Inr:
  assumes "db s = Some c" and "upsertRoute dep dest vid pa pn s = (Inr u, s')"
  shows "\<exists>c0 c'. db s' = Some c' \<and> image c' = image c0 \<and>
           exec_stmt (clock (world s))
             (case routes_between (image c) dep dest vid of
                r # rest \<Rightarrow> UpdateRouteFares pa pn (r_id r)
              | [] \<Rightarrow> InsertRoute dep dest vid pa pn) c = Inr c0"
proof (cases "routes_between (image c) dep dest vid")
  case Nil
  with assms obtain r where "run (InsertRoute dep dest vid pa pn) s = (Inr r, s')"
    by (auto simp: upsertRoute_def query_def route_ids_between split: sum.splits prod.splits)
  from run_Inr [OF assms(1) this] Nil show ?thesis by auto
next
  case (Cons r0 rest)
  with assms obtain r where "run (UpdateRouteFares pa pn (r_id r0)) s = (Inr r, s')"
    by (auto simp: upsertRoute_def query_def route_ids_between split: sum.splits prod.splits)
  from run_Inr [OF assms(1) this] Cons show ?thesis by auto
qed

lemma update_fares_routes:
  "exec_stmt now (UpdateRouteFares pa pn i) c = Inr c' \<Longrightarrow>
   routes (image c') =
     map (\<lambda>r. if r_id r = i then r\<lparr>r_price_ac := pa, r_price_no_ac := pn\<rparr> else r)
       (routes (image c))"
  by (auto simp: modified_def Let_def)

lemma insert_route_routes:
  "exec_stmt now (InsertRoute dep dest vid pa pn) c = Inr c' \<Longrightarrow>
   \<exists>i. routes (image c') = routes (image c) @
     [\<lparr>r_id = i, r_departure_id = dep, r_destination_id = dest, r_vehicle_id = vid,
       r_price_ac = pa, r_price_no_ac = pn\<rparr>]"
  by (auto simp: inserted_def Let_def split: if_splits)

lemma filter_map_unchanged:
  assumes "\<forall>x \<in> set xs. P (f x) = P x" and "\<forall>x \<in> set xs. P x \<longrightarrow> f x = x"
  shows "filter P (map f xs) = filter P xs"
  using assms by (induction xs) auto

text \<open>
  One upsert: afterwards a row of the direction carries the fares, and it is the only
  row of the direction when there was none.
\<close>

lemma upsert_same_direction:
  assumes "db s = Some c" and "upsertRoute dep dest vid pa pn s = (Inr u, s')"
  shows "\<exists>c'. db s' = Some c' \<and> (pa, pn) \<in> fares ` set (routes_between (image c') dep dest vid)
          \<and> (routes_between (image c) dep dest vid = [] \<longrightarrow>
               map fares (routes_between (image c') dep dest vid) = [(pa, pn)])"
proof -
  from upsertRoute_Inr [OF assms] obtain c0 c' where c': "db s' = Some c'"
    and im: "image c' = image c0"
    and ex: "exec_stmt (clock (world s))
             (case routes_between (image c) dep dest vid of
                r # rest \<Rightarrow> UpdateRouteFares pa pn (r_id r)
              | [] \<Rightarrow> InsertRoute dep dest vid pa pn) c = Inr c0" by blast
  show ?thesis
  proof (cases "routes_between (image c) dep dest vid")
    case Nil
    with ex have "exec_stmt (clock (world s)) (InsertRoute dep dest vid pa pn) c = Inr c0"
      by simp
    from insert_route_routes [OF this] im obtain i where
      "routes (image c') = routes (image c) @
        [\<lparr>r_id = i, r_departure_id = dep, r_destination_id = dest, r_vehicle_id = vid,
          r_price_ac = pa, r_price_no_ac = pn\<rparr>]" by auto
    with Nil have "routes_between (image c') dep dest vid =
        [\<lparr>r_id = i, r_departure_id = dep, r_destination_id = dest, r_vehicle_id = vid,
          r_price_ac = pa, r_price_no_ac = pn\<rparr>]"
      by (simp add: routes_between_def)
    with c' show ?thesis by (simp add: fares_def)
  next
    case (Cons r0 rest)
    then have "r0 \<in> set (routes_between (image c) dep dest vid)" by simp
    then have r0: "r0 \<in> set (routes (image c))" "r_departure_id r0 = dep"
      "r_destination_id r0 = dest" "r_vehicle_id r0 = vid"
      by (simp_all add: routes_between_def)
    from Cons ex have "exec_stmt (clock (world s)) (UpdateRouteFares pa pn (r_id r0)) c = Inr c0"
      by simp
    from update_fares_routes [OF this] im have
      "routes (image c') =
        map (\<lambda>r. if r_id r = r_id r0 then r\<lparr>r_price_ac := pa, r_price_no_ac := pn\<rparr> else r)
          (routes (image c))" by simp
    then have "r0\<lparr>r_price_ac := pa, r_price_no_ac := pn\<rparr> \<in> set (routes (image c'))"
      using r0(1) by force
    then have "r0\<lparr>r_price_ac := pa, r_price_no_ac := pn\<rparr>
        \<in> set (routes_between (image c') dep dest vid)"
      using r0 by (simp add: routes_between_def)
    then have "(pa, pn) \<in> fares ` set (routes_between (image c') dep dest vid)"
      by (force simp: fares_def)
    with c' Cons show ?thesis by simp
  qed
qed

text \<open>One upsert leaves the rows of every other direction or vehicle as they were.\<close>

lemma upsert_other_direction:
  assumes "db s = Some c" and "upsertRoute dep dest vid pa pn s = (Inr u, s')"
    and "routes_between (image c) dep dest vid = [] \<or> distinct (map r_id (routes (image c)))"
    and "(dep', dest', vid') \<noteq> (dep, dest, vid)"
  shows "\<exists>c'. db s' = Some c' \<and>
           routes_between (image c') dep' dest' vid' = routes_between (image c) dep' dest' vid'"
proof -
  from upsertRoute_Inr [OF assms(1,2)] obtain c0 c' where c': "db s' = Some c'"
    and im: "image c' = image c0"
    and ex: "exec_stmt (clock (world s))
             (case routes_between (image c) dep dest vid of
                r # rest \<Rightarrow> UpdateRouteFares pa pn (r_id r)
              | [] \<Rightarrow> InsertRoute dep dest vid pa pn) c = Inr c0" by blast
  show ?thesis
  proof (cases "routes_between (image c) dep dest vid")
    case Nil
    with ex have "exec_stmt (clock (world s)) (InsertRoute dep dest vid pa pn) c = Inr c0"
      by simp
    from insert_route_routes [OF this] im obtain i where
      "routes (image c') = routes (image c) @
        [\<lparr>r_id = i, r_departure_id = dep, r_destination_id = dest, r_vehicle_id = vid,
          r_price_ac = pa, r_price_no_ac = pn\<rparr>]" by auto
    with c' assms(4) show ?thesis
      by (auto simp: routes_between_def)
  next
    case (Cons r0 rest)
    then have "r0 \<in> set (routes_between (image c) dep dest vid)" by simp
    then have r0: "r0 \<in> set (routes (image c))" "r_departure_id r0 = dep"
      "r_destination_id r0 = dest" "r_vehicle_id r0 = vid"
      by (simp_all add: routes_between_def)
    have only: "r = r0" if "r \<in> set (routes (image c))" "r_id r = r_id r0" for r
      using that r0(1) assms(3) Cons by (simp add: distinct_map) (meson inj_onD)
    let ?upd = "\<lambda>r. if r_id r = r_id r0 then r\<lparr>r_price_ac := pa, r_price_no_ac := pn\<rparr> else r"
    from Cons ex have "exec_stmt (clock (world s)) (UpdateRouteFares pa pn (r_id r0)) c = Inr c0"
      by simp
    from update_fares_routes [OF this] im
    have rs: "routes (image c') = map ?upd (routes (image c))" by simp
    let ?P = "\<lambda>r. r_departure_id r = dep' \<and> r_destination_id r = dest' \<and> r_vehicle_id r = vid'"
    have 1: "\<forall>x \<in> set (routes (image c)). ?P (?upd x) = ?P x" by simp
    have 2: "\<forall>x \<in> set (routes (image c)). ?P x \<longrightarrow> ?upd x = x"
    proof (intro ballI impI)
      fix x assume x: "x \<in> set (routes (image c))" "?P x"
      have "r_id x \<noteq> r_id r0"
      proof
        assume "r_id x = r_id r0"
        with only x(1) have "x = r0" by blast
        with x(2) r0 assms(4) show False by simp
      qed
      then show "?upd x = x" by simp
    qed
    have "filter ?P (map ?upd (routes (image c))) = filter ?P (routes (image c))"
      by (rule filter_map_unchanged [OF 1 2])
    with rs c' show ?thesis by (simp add: routes_between_def)
  qed
qed

text \<open>
  C4, as the code has it. After a \<^verbatim>\<open>saveRoute\<close> that returns, a route from the departure
  to the destination with the vehicle carries the given fares. In the reverse direction:
  when there was no route, there is now exactly one, with the given fares; when there
  was one, the rows of the reverse direction, fares included, are as they were.
\<close>

theorem saveRoute_directions:
  assumes "db s = Some c"
    and "distinct (map r_id (routes (image c)))"
    and "saveRoute inp s = (Inr rows, s')"
  shows "\<exists>c'. db s' = Some c' \<and>
           (priceAc inp, priceNoAc inp)
             \<in> fares ` set (routes_between (image c') (departureId inp) (destinationId inp)
                               (vehicleId inp)) \<and>
           (if routes_between (image c) (destinationId inp) (departureId inp) (vehicleId inp) = []
            then map fares (routes_between (image c') (destinationId inp) (departureId inp)
                              (vehicleId inp)) = [(priceAc inp, priceNoAc inp)]
            else routes_between (image c') (destinationId inp) (departureId inp) (vehicleId inp)
                 = routes_between (image c) (destinationId inp) (departureId inp) (vehicleId inp))"
proof -
  let ?A = "departureId inp" and ?B = "destinationId inp" and ?V = "vehicleId inp"
  let ?pa = "priceAc inp" and ?pn = "priceNoAc inp"
  from assms(3) have ne: "?A \<noteq> ?B"
    by (auto simp: saveRoute_def split: if_splits)
  from assms(3) ne obtain u s1 where
    up1: "upsertRoute ?A ?B ?V ?pa ?pn s = (Inr u, s1)"
    by (auto simp: saveRoute_def split: prod.splits sum.splits)
  from upsert_same_direction [OF assms(1) up1] obtain c1 where
    c1: "db s1 = Some c1" and
    fwd1: "(?pa, ?pn) \<in> fares ` set (routes_between (image c1) ?A ?B ?V)" by blast
  from upsert_other_direction [OF assms(1) up1, of ?B ?A ?V] assms(2) ne c1
  have rev1: "routes_between (image c1) ?B ?A ?V = routes_between (image c) ?B ?A ?V"
    by auto
  show ?thesis
  proof (cases "routes_between (image c) ?B ?A ?V = []")
    case True
    with rev1 have empty1: "routes_between (image c1) ?B ?A ?V = []" by simp
    with assms(3) ne up1 c1 obtain u2 where
      up2: "upsertRoute ?B ?A ?V ?pa ?pn s1 = (Inr u2, s')"
      by (auto simp: saveRoute_def query_def route_ids_between split: prod.splits sum.splits)
    from upsert_same_direction [OF c1 up2] empty1 obtain c2 where
      c2: "db s' = Some c2" and
      rev2: "map fares (routes_between (image c2) ?B ?A ?V) = [(?pa, ?pn)]" by auto
    from upsert_other_direction [OF c1 up2, of ?A ?B ?V] empty1 ne c2
    have "routes_between (image c2) ?A ?B ?V = routes_between (image c1) ?A ?B ?V"
      by auto
    with fwd1 c2 rev2 True show ?thesis by simp
  next
    case False
    with rev1 have "routes_between (image c1) ?B ?A ?V \<noteq> []" by simp
    with assms(3) ne up1 c1 have "s' = s1"
      by (auto simp: saveRoute_def query_def route_ids_between split: prod.splits sum.splits)
    with c1 fwd1 rev1 False show ?thesis by simp
  qed
qed

lemmas route_eval = saveRoute_def upsertRoute_def query_def route_ids_def routes_between_def
  run_def persist_def saveToIDB_def modified_def inserted_def db_export_def reopen_def
  run_info_def getRoutes_def route_sort_key_def find_place_def place_exists_def
  find_vehicle_def next_rowid_def Let_def

theorem saveRoute_directions_witness:
  "db demo_state = Some demo_conn \<and> distinct (map r_id (routes (image demo_conn))) \<and>
   fst (saveRoute new_pair demo_state) =
     Inr [\<lparr>r_id = 2, r_departure_id = 2, r_destination_id = 1, r_vehicle_id = 1,
            r_price_ac = Some 5000, r_price_no_ac = Some 4000\<rparr>,
          \<lparr>r_id = 4, r_departure_id = 3, r_destination_id = 1, r_vehicle_id = 1,
            r_price_ac = Some 3000, r_price_no_ac = None\<rparr>,
          \<lparr>r_id = 1, r_departure_id = 1, r_destination_id = 2, r_vehicle_id = 1,
            r_price_ac = Some 5000, r_price_no_ac = Some 4000\<rparr>,
          \<lparr>r_id = 3, r_departure_id = 1, r_destination_id = 3, r_vehicle_id = 1,
            r_price_ac = Some 3000, r_price_no_ac = None\<rparr>] \<and>
   (\<exists>c'. db (snd (saveRoute new_pair demo_state)) = Some c' \<and>
      (Some 3000, None) \<in> fares ` set (routes_between (image c') 1 3 1) \<and>
      map fares (routes_between (image c') 3 1 1) = [(Some 3000, None)])"
proof -
  let ?rows = "[\<lparr>r_id = 2, r_departure_id = 2, r_destination_id = 1, r_vehicle_id = 1,
            r_price_ac = Some 5000, r_price_no_ac = Some 4000\<rparr>,
          \<lparr>r_id = 4, r_departure_id = 3, r_destination_id = 1, r_vehicle_id = 1,
            r_price_ac = Some 3000, r_price_no_ac = None\<rparr>,
          \<lparr>r_id = 1, r_departure_id = 1, r_destination_id = 2, r_vehicle_id = 1,
            r_price_ac = Some 5000, r_price_no_ac = Some 4000\<rparr>,
          \<lparr>r_id = 3, r_departure_id = 1, r_destination_id = 3, r_vehicle_id = 1,
            r_price_ac = Some 3000, r_price_no_ac = None\<rparr>]"
  have a: "db demo_state = Some demo_conn" by (simp add: demo_state_def)
  have b: "distinct (map r_id (routes (image demo_conn)))"
    by (simp add: demo_conn_def demo_tables_def)
  have f: "fst (saveRoute new_pair demo_state) = Inr ?rows"
    by (simp add: new_pair_def demo_defs route_eval)
  then have c: "saveRoute new_pair demo_state = (Inr ?rows, snd (saveRoute new_pair demo_state))"
    by (metis prod.collapse)
  have d: "routes_between (image demo_conn) 3 1 1 = []"
    by (simp add: demo_conn_def demo_tables_def routes_between_def)
  have e: "departureId new_pair = 1" "destinationId new_pair = 3" "vehicleId new_pair = 1"
    "priceAc new_pair = Some 3000" "priceNoAc new_pair = None"
    by (simp_all add: new_pair_def)
  from saveRoute_directions [OF a b c] d
  have "\<exists>c'. db (snd (saveRoute new_pair demo_state)) = Some c' \<and>
      (Some 3000, None) \<in> fares ` set (routes_between (image c') 1 3 1) \<and>
      map fares (routes_between (image c') 3 1 1) = [(Some 3000, None)]"
    unfolding e by simp
  with a b f show ?thesis by blast
qed

text \<open>
  C4, as the claim has it, fails where the reverse route exists: saving the route from
  place 1 to place 2 with new fares returns normally, the route from 1 to 2 carries the
  new fares, and the route from 2 to 1 keeps the old ones. The rows come back in the
  order of the names, Abuja before Lagos.
\<close>

theorem saveRoute_reverse_keeps_fares:
  "fst (saveRoute new_fares demo_state) =
     Inr [\<lparr>r_id = 2, r_departure_id = 2, r_destination_id = 1, r_vehicle_id = 1,
            r_price_ac = Some 5000, r_price_no_ac = Some 4000\<rparr>,
          \<lparr>r_id = 1, r_departure_id = 1, r_destination_id = 2, r_vehicle_id = 1,
            r_price_ac = Some 7000, r_price_no_ac = Some 6000\<rparr>]
   \<and> route_fares (snd (saveRoute new_fares demo_state)) 1 2 1 = [(Some 7000, Some 6000)]
   \<and> route_fares (snd (saveRoute new_fares demo_state)) 2 1 1 = [(Some 5000, Some 4000)]"
  by (simp add: new_fares_def demo_defs route_eval route_fares_def fares_def)


subsection \<open>Bookings\<close>

lemmas booking_eval = bookTrip_def upsertDriver_def getDriverByPhone_def query_def run_def
  persist_def saveToIDB_def inserted_def modified_def next_rowid_def getTripByBookingCode_def
  trip_joins_def find_route_def find_trip_def find_vehicle_def place_exists_def
  driver_exists_def createTrip_def bookPassenger_def capacity_trigger_def trip_capacity_def
  passenger_count_def getSeatsRemaining_def trim_def is_space_def db_export_def reopen_def
  run_info_def trigger_message_def full_outcome_def unique_failed_def Let_def

lemmas scenario_defs = ada_def bola_def chidi_def no_route_def booking_for_def one_booked_def
  driver_known_def known_one_def known_two_def known_three_def

text \<open>
  On a trip that is full, the trigger refuses the insert: \<^verbatim>\<open>bookPassenger\<close> returns the
  outcome \<^verbatim>\<open>{success: false, reason: "full"}\<close> and the state is as it was.
\<close>

lemma fully_booked_message: "str_includes trigger_message ''fully booked''"
  by (simp add: trigger_message_def)

lemma bookPassenger_full:
  assumes "db s = Some c" and "trip_capacity (image c) tid = Some cap"
    and "cap \<le> int (passenger_count (image c) tid)"
  shows "bookPassenger tid name phone g s = (Inr full_outcome, s)"
proof -
  from assms(2,3) have "capacity_trigger (image c) tid = Some (Error trigger_message)"
    by (simp add: capacity_trigger_def)
  then have "exec_stmt (clock (world s)) (InsertPassenger tid (trim name) (trim phone) g) c
      = Inl (Error trigger_message)" by simp
  with assms(1) have "run (InsertPassenger tid (trim name) (trim phone) g) s
      = (Inl (Error trigger_message), s)" by (simp add: run_def)
  then show ?thesis by (simp add: bookPassenger_def fully_booked_message)
qed

text \<open>
  C5. With a new driver, the first \<^verbatim>\<open>bookTrip\<close> on a new code returns trip 0 and passenger
  0, and the second call on the same code fails on the unique booking code: the trip was
  stored with driver 0 and is not found. With a known driver both calls succeed, with
  trip ids 0 and 1; one trip row has the code, and of the two passenger rows only the
  second is attached to it.
\<close>

theorem bookTrip_same_code_twice:
  "fst (bookTrip ada demo_state) = Inr (TripBooked 0 0 ''TRP-20250101-AAAA'' None)
   \<and> fst (bookTrip bola one_booked) = Inl (Error ''UNIQUE constraint failed: trips.booking_code'')
   \<and> map_option trips (state_tables one_booked)
       = Some [\<lparr>t_id = 1, t_booking_code = ''TRP-20250101-AAAA'', t_route_id = 1,
                 t_driver_id = 0, t_vehicle_no = ''LAG-1'', t_has_ac = True,
                 t_booked_at = ''2025-01-01 08:00:00''\<rparr>]
   \<and> fst (bookTrip ada driver_known) = Inr (TripBooked 0 0 ''TRP-20250101-AAAA'' None)
   \<and> fst (bookTrip bola known_one) = Inr (TripBooked 1 0 ''TRP-20250101-AAAA'' (Some 1))
   \<and> map_option trips (state_tables known_two)
       = Some [\<lparr>t_id = 1, t_booking_code = ''TRP-20250101-AAAA'', t_route_id = 1,
                 t_driver_id = 1, t_vehicle_no = ''LAG-1'', t_has_ac = True,
                 t_booked_at = ''2025-01-01 08:00:00''\<rparr>]
   \<and> map_option passengers (state_tables known_two)
       = Some [\<lparr>p_id = 1, p_trip_id = 0, p_name = ''Ada'', p_phone = ''0802'', p_gender = ''F''\<rparr>,
               \<lparr>p_id = 2, p_trip_id = 1, p_name = ''Bola'', p_phone = ''0803'', p_gender = ''F''\<rparr>]
   \<and> count_of known_two 1 = 1"
  by (simp add: scenario_defs demo_defs booking_eval state_tables_def count_of_def)


end
